theory Spec2Isabelle
  imports Main "HOL-Library.AList" "HOL-Library.Sublist"
begin

section \<open>The schema generator of \<^verbatim>\<open>src/generate.ts\<close>\<close>

text \<open>
  \<^verbatim>\<open>generate\<close> reads the service specification database and builds two documents:
  one entry per resource (construct naming, attributes, properties) and one entry per
  nested type definition (naming, properties). The embedding follows the function
  statement by statement. Exceptions are values of \<open>error + 'a\<close>, the objects that the
  source builds with string keys are association lists in insertion order, and the
  values it emits are untyped (\<^verbatim>\<open>{ [key: string]: any }\<close>), so they are modelled as
  JavaScript values. (JavaScript enumerates the keys of an object that are array
  indices before its other keys; the lists here keep the insertion order throughout,
  and no statement below depends on the order among such keys.)
\<close>

subsection \<open>JavaScript values and strings\<close>

datatype jsval =
    JUndefined
  | JNull
  | JBool bool
  | JString string
  | JArray "jsval list"
  | JObject "(string \<times> jsval) list"

datatype error =
    TypeError       \<comment> \<open>a property read or a method call on \<^verbatim>\<open>undefined\<close>\<close>
  | NoSuchEntity    \<comment> \<open>\<^verbatim>\<open>db.get\<close> on an identifier the database does not hold\<close>
  | NotExactlyOne   \<comment> \<open>\<^verbatim>\<open>.only()\<close> on a result set of zero or several records\<close>

text \<open>The operator \<^verbatim>\<open>a ?? b\<close>: \<open>b\<close> when \<open>a\<close> is \<^verbatim>\<open>undefined\<close> or \<^verbatim>\<open>null\<close>.\<close>

definition nullish :: "jsval \<Rightarrow> jsval \<Rightarrow> jsval" where
  "nullish a b = (if a = JUndefined \<or> a = JNull then b else a)"

text \<open>\<^verbatim>\<open>Array.prototype.pop\<close>, for its value: the last element, \<^verbatim>\<open>undefined\<close> on \<open>[]\<close>.\<close>

definition pop :: "jsval list \<Rightarrow> jsval" where
  "pop vs = (if vs = [] then JUndefined else last vs)"

text \<open>
  \<^verbatim>\<open>s.split(sep)\<close> for a non-empty separator: the pieces between the occurrences of
  \<open>sep\<close>, found from the left. The source only splits on \<^verbatim>\<open>'::'\<close> and \<^verbatim>\<open>'.'\<close>; on
  an empty separator the model returns the string whole.
\<close>

function splitFrom :: "string \<Rightarrow> string \<Rightarrow> string \<Rightarrow> string list" where
  "splitFrom sep acc [] = [rev acc]"
| "splitFrom sep acc (c # cs) =
     (if sep \<noteq> [] \<and> prefix sep (c # cs)
      then rev acc # splitFrom sep [] (drop (length sep) (c # cs))
      else splitFrom sep (c # acc) cs)"
  by pat_completeness auto
termination
  by (relation "measure (\<lambda>(sep, acc, s). length s)") auto

definition split :: "string \<Rightarrow> string \<Rightarrow> string list" where
  "split sep s = splitFrom sep [] s"

text \<open>\<^verbatim>\<open>parts.join(sep)\<close>.\<close>

fun join :: "string \<Rightarrow> string list \<Rightarrow> string" where
  "join sep [] = []"
| "join sep [p] = p"
| "join sep (p # q # ps) = p @ sep @ join sep (q # ps)"

text \<open>
  \<^verbatim>\<open>s.replace(pat, rep)\<close> with a string pattern: the leftmost occurrence of \<open>pat\<close>
  is replaced, the rest of the string is kept. (None of the replacement strings of the
  source contains \<^verbatim>\<open>$\<close>, so no replacement pattern is involved.)
\<close>

fun replace :: "string \<Rightarrow> string \<Rightarrow> string \<Rightarrow> string" where
  "replace pat rep [] = (if pat = [] then rep else [])"
| "replace pat rep (c # cs) =
     (if prefix pat (c # cs) then rep @ drop (length pat) (c # cs)
      else c # replace pat rep cs)"

subsection \<open>The input: property types and the database\<close>

text \<open>
  A property type descriptor is an object with a \<^verbatim>\<open>type\<close> tag and, depending on the
  tag, a \<^verbatim>\<open>reference\<close> (the \<^verbatim>\<open>$ref\<close> identifier), an \<^verbatim>\<open>element\<close> or a list of
  \<^verbatim>\<open>types\<close>. The tag is kept as the string the source switches on, and a field the
  object does not have is \<open>None\<close>.
\<close>

datatype propertyType =
  PropertyType (ptype: string) (reference: "string option")
    (element: "propertyType option") (types: "propertyType list option")

record service =
  svc_name :: string
  cloudFormationNamespace :: string

record attribute =
  attr_type :: propertyType
  attr_previousTypes :: "propertyType list option"

record property =
  prop_type :: propertyType
  prop_previousTypes :: "propertyType list option"
  required :: "bool option"

record resource =
  cloudFormationType :: string
  res_name :: string
  attributes :: "(string \<times> attribute) list"
  properties :: "(string \<times> property) list"

record typeDefinition =
  td_id :: string
  td_name :: string
  td_properties :: "(string \<times> property) list"

record database =
  all_service :: "service list"
  all_resource :: "resource list"
  all_typeDefinition :: "typeDefinition list"

text \<open>
  Modelled from the spec: the database operations of the external package, which is
  not part of the source. \<^verbatim>\<open>lookup(kind, field, 'equals', value)\<close> is the result set of
  the records whose field equals the value, \<^verbatim>\<open>.only()\<close> fails unless the set has
  exactly one record, and \<^verbatim>\<open>get(kind, id)\<close> is the record with that identifier.
\<close>

definition lookup_service :: "database \<Rightarrow> string \<Rightarrow> service list" where
  "lookup_service db ns = filter (\<lambda>s. cloudFormationNamespace s = ns) (all_service db)"

definition only :: "'a list \<Rightarrow> error + 'a" where
  "only xs = (case xs of [x] \<Rightarrow> Inr x | _ \<Rightarrow> Inl NotExactlyOne)"

definition get_typeDefinition :: "database \<Rightarrow> string \<Rightarrow> error + typeDefinition" where
  "get_typeDefinition db i =
     (case find (\<lambda>t. td_id t = i) (all_typeDefinition db) of
        None \<Rightarrow> Inl NoSuchEntity
      | Some t \<Rightarrow> Inr t)"

text \<open>
  Modelled from the spec: the canonical descriptors \<^verbatim>\<open>Type.STRING.spec\<close>,
  \<^verbatim>\<open>Type.BOOLEAN.spec\<close>, \<^verbatim>\<open>Type.NUMBER.spec\<close>, \<^verbatim>\<open>Type.DATE_TIME.spec\<close> and
  \<^verbatim>\<open>Type.UNDEFINED.spec\<close> are constants of the external package; they are taken as
  a parameter.
\<close>

record typewriter =
  STRING_spec :: jsval
  BOOLEAN_spec :: jsval
  NUMBER_spec :: jsval
  DATE_TIME_spec :: jsval
  UNDEFINED_spec :: jsval

subsection \<open>\<^verbatim>\<open>getType\<close>\<close>

text \<open>
  \<^verbatim>\<open>doGetType\<close> is the \<^verbatim>\<open>switch\<close> on the tag, in the order of the source; the
  \<^verbatim>\<open>switch\<close> has no \<^verbatim>\<open>default\<close>, so any other tag falls out of it and the function
  returns \<^verbatim>\<open>undefined\<close>. The closure variable \<^verbatim>\<open>refIds\<close> is threaded through.
\<close>

fun doGetType ::
    "typewriter \<Rightarrow> database \<Rightarrow> propertyType \<Rightarrow> string \<Rightarrow> (string \<times> string) list
       \<Rightarrow> error + (jsval \<times> (string \<times> string) list)"
  and doGetTypes ::
    "typewriter \<Rightarrow> database \<Rightarrow> propertyType list \<Rightarrow> string \<Rightarrow> (string \<times> string) list
       \<Rightarrow> error + (jsval list \<times> (string \<times> string) list)"
where
  "doGetType tw db (PropertyType t r e ts) cfnType refIds =
     (if t = ''string'' then Inr (STRING_spec tw, refIds)
      else if t = ''boolean'' then Inr (BOOLEAN_spec tw, refIds)
      else if t = ''number'' then Inr (NUMBER_spec tw, refIds)
      else if t = ''integer'' then Inr (NUMBER_spec tw, refIds)
      else if t = ''date-time'' then Inr (DATE_TIME_spec tw, refIds)
      else if t = ''ref'' then
        (case r of
           None \<Rightarrow> Inl TypeError
         | Some i \<Rightarrow>
            (case get_typeDefinition db i of
               Inl err \<Rightarrow> Inl err
             | Inr ref \<Rightarrow>
                 Inr (JObject [(''named'', JString (cfnType @ ''.'' @ td_name ref))],
                      AList.update (td_id ref) (td_name ref) refIds)))
      else if t = ''array'' then
        (case e of
           None \<Rightarrow> Inl TypeError
         | Some el \<Rightarrow>
            (case doGetType tw db el cfnType refIds of
               Inl err \<Rightarrow> Inl err
             | Inr (v, refIds') \<Rightarrow> Inr (JObject [(''listOf'', v)], refIds')))
      else if t = ''json'' then Inr (JObject [(''primitive'', JString ''json'')], refIds)
      else if t = ''map'' then
        (case e of
           None \<Rightarrow> Inl TypeError
         | Some el \<Rightarrow>
            (case doGetType tw db el cfnType refIds of
               Inl err \<Rightarrow> Inl err
             | Inr (v, refIds') \<Rightarrow> Inr (JObject [(''mapOf'', v)], refIds')))
      else if t = ''tag'' then Inr (JObject [(''named'', JString ''CfnTag'')], refIds)
      else if t = ''union'' then
        (case ts of
           None \<Rightarrow> Inl TypeError
         | Some members \<Rightarrow>
            (case doGetTypes tw db members cfnType refIds of
               Inl err \<Rightarrow> Inl err
             | Inr (vs, refIds') \<Rightarrow> Inr (JObject [(''unionOf'', JArray vs)], refIds')))
      else if t = ''null'' then Inr (UNDEFINED_spec tw, refIds)
      else Inr (JUndefined, refIds))"
| "doGetTypes tw db [] cfnType refIds = Inr ([], refIds)"
| "doGetTypes tw db (p # ps) cfnType refIds =
     (case doGetType tw db p cfnType refIds of
        Inl err \<Rightarrow> Inl err
      | Inr (v, refIds') \<Rightarrow>
         (case doGetTypes tw db ps cfnType refIds' of
            Inl err \<Rightarrow> Inl err
          | Inr (vs, refIds'') \<Rightarrow> Inr (v # vs, refIds'')))"

text \<open>\<^verbatim>\<open>getType\<close> starts from an empty \<^verbatim>\<open>refIds\<close> and returns \<^verbatim>\<open>{type, ids}\<close>.\<close>

definition getType ::
    "typewriter \<Rightarrow> database \<Rightarrow> propertyType \<Rightarrow> string
       \<Rightarrow> error + (jsval \<times> (string \<times> string) list)" where
  "getType tw db propType cfnType = doGetType tw db propType cfnType []"

subsection \<open>Loops that an exception leaves\<close>

text \<open>
  The \<^verbatim>\<open>for ... of\<close> loops and the \<^verbatim>\<open>Object.entries(...).map(...)\<close> calls of the
  source run a body over a list for its effect on the surrounding variables; an
  exception in the body ends the loop and the function. \<open>forEach\<close> is that loop over
  the state the body changes.
\<close>

fun forEach :: "('a \<Rightarrow> 's \<Rightarrow> error + 's) \<Rightarrow> 'a list \<Rightarrow> 's \<Rightarrow> error + 's" where
  "forEach body [] s = Inr s"
| "forEach body (x # xs) s =
     (case body x s of Inl err \<Rightarrow> Inl err | Inr s' \<Rightarrow> forEach body xs s')"

text \<open>\<^verbatim>\<open>previousTypes?.map((t) => getType(t, cfnType).type).pop()\<close>\<close>

fun mapGetType ::
    "typewriter \<Rightarrow> database \<Rightarrow> propertyType list \<Rightarrow> string \<Rightarrow> error + jsval list" where
  "mapGetType tw db [] cfnType = Inr []"
| "mapGetType tw db (t # ts) cfnType =
     (case getType tw db t cfnType of
        Inl err \<Rightarrow> Inl err
      | Inr (v, ids) \<Rightarrow>
         (case mapGetType tw db ts cfnType of
            Inl err \<Rightarrow> Inl err
          | Inr vs \<Rightarrow> Inr (v # vs)))"

definition previousTypeOf ::
    "typewriter \<Rightarrow> database \<Rightarrow> propertyType list option \<Rightarrow> string \<Rightarrow> error + jsval" where
  "previousTypeOf tw db previousTypes cfnType =
     (case previousTypes of
        None \<Rightarrow> Inr JUndefined
      | Some ts \<Rightarrow>
         (case mapGetType tw db ts cfnType of
            Inl err \<Rightarrow> Inl err
          | Inr vs \<Rightarrow> Inr (pop vs)))"

definition ofRequired :: "bool option \<Rightarrow> jsval" where
  "ofRequired r = (case r of None \<Rightarrow> JUndefined | Some b \<Rightarrow> JBool b)"

subsection \<open>Pass 1: the resources\<close>

text \<open>
  \<^verbatim>\<open>propertyRefList\<close> is only ever assigned to (\<^verbatim>\<open>propertyRefList[_id] = ...\<close>) and
  searched by key. It is modelled by the list of its assignments, the latest first: an
  assignment puts a pair in front, and the search for a key (\<open>map_of\<close>) finds the
  latest value assigned to it, which is the value the object holds.
\<close>

type_synonym refList = "(string \<times> string) list"

definition recordRefs :: "string \<Rightarrow> (string \<times> string) list \<Rightarrow> refList \<Rightarrow> refList" where
  "recordRefs cfnType ids propertyRefList =
     fold (\<lambda>(id', type') l. (id', cfnType @ ''.'' @ type') # l) ids propertyRefList"

fun attributeStep ::
    "typewriter \<Rightarrow> database \<Rightarrow> string \<Rightarrow> string \<times> attribute
       \<Rightarrow> refList \<times> (string \<times> jsval) list \<Rightarrow> error + (refList \<times> (string \<times> jsval) list)" where
  "attributeStep tw db cfnType (id', attribute) (propertyRefList, attributeList) =
     (case getType tw db (attr_type attribute) cfnType of
        Inl err \<Rightarrow> Inl err
      | Inr (type, ids) \<Rightarrow>
         (case previousTypeOf tw db (attr_previousTypes attribute) cfnType of
            Inl err \<Rightarrow> Inl err
          | Inr previousType \<Rightarrow>
              Inr (recordRefs cfnType ids propertyRefList,
                   AList.update id'
                     (JObject [(''name'', JString id'),
                               (''valueType'', type),
                               (''previousType'', previousType)])
                     attributeList)))"

fun propertyStep ::
    "typewriter \<Rightarrow> database \<Rightarrow> string \<Rightarrow> string \<times> property
       \<Rightarrow> refList \<times> (string \<times> jsval) list \<Rightarrow> error + (refList \<times> (string \<times> jsval) list)" where
  "propertyStep tw db cfnType (id', property) (propertyRefList, resourceProperties) =
     (case getType tw db (prop_type property) cfnType of
        Inl err \<Rightarrow> Inl err
      | Inr (type, ids) \<Rightarrow>
         (case previousTypeOf tw db (prop_previousTypes property) cfnType of
            Inl err \<Rightarrow> Inl err
          | Inr previousType \<Rightarrow>
              Inr (recordRefs cfnType ids propertyRefList,
                   AList.update id'
                     (JObject [(''name'', JString id'),
                               (''valueType'', nullish previousType type),
                               (''required'', ofRequired (required property))])
                     resourceProperties)))"

definition construct :: "service \<Rightarrow> resource \<Rightarrow> jsval" where
  "construct service resource =
     (let name = ''Cfn'' @ res_name resource;
          goPackage = replace ''-'' [] (svc_name service)
      in JObject
        [(''typescript'', JObject
            [(''module'', JString (''aws-cdk-lib/'' @ svc_name service)),
             (''name'', JString name)]),
         (''csharp'', JObject
            [(''namespace'', JString (''Amazon.CDK.'' @
                replace ''::'' ''.'' (cloudFormationNamespace service))),
             (''name'', JString name)]),
         (''golang'', JObject
            [(''module'', JString (''github.com/aws/aws-cdk-go/awscdk/v2/'' @ goPackage)),
             (''package'', JString goPackage),
             (''name'', JString name)]),
         (''java'', JObject
            [(''package'', JString (''software.amazon.awscdk.'' @
                replace ''aws'' ''services'' (replace ''-'' ''.'' (svc_name service)))),
             (''name'', JString name)]),
         (''python'', JObject
            [(''module'', JString (''aws_cdk.'' @ replace ''-'' ''_'' (svc_name service))),
             (''name'', JString name)])])"

text \<open>\<^verbatim>\<open>cloudFormationType.split('::').slice(0, 2).join('::')\<close>\<close>

definition serviceTypeOf :: "string \<Rightarrow> string" where
  "serviceTypeOf cfnType = join ''::'' (take 2 (split ''::'' cfnType))"

fun resourceStep ::
    "typewriter \<Rightarrow> database \<Rightarrow> resource
       \<Rightarrow> (string \<times> jsval) list \<times> refList \<Rightarrow> error + ((string \<times> jsval) list \<times> refList)" where
  "resourceStep tw db resource (resourceTypes, propertyRefList) =
     (let cfnType = cloudFormationType resource;
          serviceType = serviceTypeOf cfnType
      in case only (lookup_service db serviceType) of
           Inl err \<Rightarrow> Inl err
         | Inr service \<Rightarrow>
            (case forEach (attributeStep tw db cfnType) (attributes resource)
                    (propertyRefList, []) of
               Inl err \<Rightarrow> Inl err
             | Inr (propertyRefList', attributeList) \<Rightarrow>
                (case forEach (propertyStep tw db cfnType) (properties resource)
                        (propertyRefList', []) of
                   Inl err \<Rightarrow> Inl err
                 | Inr (propertyRefList'', resourceProperties) \<Rightarrow>
                     Inr (AList.update cfnType
                            (JObject [(''construct'', construct service resource),
                                      (''attributes'', JObject attributeList),
                                      (''properties'', JObject resourceProperties)])
                            resourceTypes,
                          propertyRefList''))))"

subsection \<open>Pass 2: the nested type definitions\<close>

text \<open>
  The owner of a type definition: the entry of \<^verbatim>\<open>propertyRefList\<close> for its identifier
  or, without one, the variable \<^verbatim>\<open>resourceName\<close> left by the definition before it;
  \<^verbatim>\<open>.split('.')[0]\<close> of that string. \<^verbatim>\<open>resourceName\<close> starts \<^verbatim>\<open>undefined\<close>
  (\<open>None\<close>), and \<^verbatim>\<open>.split\<close> on \<^verbatim>\<open>undefined\<close> throws. A split is never empty
  (lemma \<open>split_nonempty\<close> below), so \<open>hd\<close>, \<open>last\<close> and \<open>butlast\<close> read pieces that
  exist, as \<^verbatim>\<open>[0]\<close> and \<^verbatim>\<open>.pop()\<close> do.
\<close>

definition resolveOwner :: "refList \<Rightarrow> typeDefinition \<Rightarrow> string option \<Rightarrow> error + string" where
  "resolveOwner propertyRefList type resourceName =
     (case (case map_of propertyRefList (td_id type) of
              Some entry \<Rightarrow> Some entry
            | None \<Rightarrow> resourceName) of
        None \<Rightarrow> Inl TypeError
      | Some s \<Rightarrow> Inr (hd (split ''.'' s)))"

fun typePropertyStep ::
    "typewriter \<Rightarrow> database \<Rightarrow> string \<Rightarrow> string \<times> property
       \<Rightarrow> (string \<times> jsval) list \<Rightarrow> error + (string \<times> jsval) list" where
  "typePropertyStep tw db resourceName (id', property) propertyTypeDetails =
     (case previousTypeOf tw db (prop_previousTypes property) resourceName of
        Inl err \<Rightarrow> Inl err
      | Inr previousType \<Rightarrow>
         (case getType tw db (prop_type property) resourceName of
            Inl err \<Rightarrow> Inl err
          | Inr (propType, ids) \<Rightarrow>
              Inr (AList.update id'
                     (JObject [(''name'', JString id'),
                               (''valueType'', nullish previousType propType),
                               (''required'', ofRequired (required property))])
                     propertyTypeDetails)))"

definition typeNaming :: "service \<Rightarrow> string list \<Rightarrow> string \<Rightarrow> jsval" where
  "typeNaming service resourceNameParts propertyName =
     (let goPackage = replace ''-'' [] (svc_name service)
      in JObject
        [(''typescript'', JObject
            [(''module'', JString (''aws-cdk-lib/'' @ svc_name service)),
             (''name'', JString propertyName)]),
         (''csharp'', JObject
            [(''namespace'', JString (''Amazon.CDK.'' @ join ''.'' resourceNameParts)),
             (''name'', JString propertyName)]),
         (''golang'', JObject
            [(''module'', JString (''github.com/aws/aws-cdk-go/awscdk/v2/'' @ goPackage)),
             (''package'', JString goPackage),
             (''name'', JString (replace ''.'' ''_'' propertyName))]),
         (''java'', JObject
            [(''package'', JString (''software.amazon.awscdk.'' @
                replace ''aws'' ''services'' (replace ''-'' ''.'' (svc_name service)))),
             (''name'', JString propertyName)]),
         (''python'', JObject
            [(''module'', JString (''aws_cdk.'' @ replace ''-'' ''_'' (svc_name service))),
             (''name'', JString propertyName)])])"

definition fullPropertyName :: "string \<Rightarrow> typeDefinition \<Rightarrow> string" where
  "fullPropertyName resourceName type = resourceName @ ''.'' @ (td_name type @ ''Property'')"

fun typeStep ::
    "typewriter \<Rightarrow> database \<Rightarrow> refList \<Rightarrow> typeDefinition
       \<Rightarrow> string option \<times> (string \<times> jsval) list
       \<Rightarrow> error + (string option \<times> (string \<times> jsval) list)" where
  "typeStep tw db propertyRefList type (resourceName, propertyTypes) =
     (case resolveOwner propertyRefList type resourceName of
        Inl err \<Rightarrow> Inl err
      | Inr resourceName' \<Rightarrow>
         (let shortPropertyName = td_name type @ ''Property'';
              parts = split ''::'' resourceName';
              resourceNameParts = butlast parts;
              propertyName = ''Cfn'' @ last parts @ ''.'' @ shortPropertyName;
              serviceType = join ''::'' resourceNameParts
          in case only (lookup_service db serviceType) of
               Inl err \<Rightarrow> Inl err
             | Inr service \<Rightarrow>
                (case forEach (typePropertyStep tw db resourceName') (td_properties type) [] of
                   Inl err \<Rightarrow> Inl err
                 | Inr propertyTypeDetails \<Rightarrow>
                     Inr (Some resourceName',
                          AList.update (fullPropertyName resourceName' type)
                            (JObject [(''name'', typeNaming service resourceNameParts propertyName),
                                      (''properties'', JObject propertyTypeDetails)])
                            propertyTypes))))"

subsection \<open>\<^verbatim>\<open>generate\<close> and the entry point\<close>

text \<open>
  The maps \<^verbatim>\<open>modules\<close>, \<^verbatim>\<open>moduleMap\<close> and \<^verbatim>\<open>propertyTypeKeyList\<close> of the source are
  filled and never read, and they are not part of the result; they are left out.
\<close>

record Specification =
  cdkResources :: jsval
  cdkTypes :: jsval

definition pass1 ::
    "typewriter \<Rightarrow> database \<Rightarrow> error + ((string \<times> jsval) list \<times> refList)" where
  "pass1 tw db = forEach (resourceStep tw db) (all_resource db) ([], [])"

definition pass2 ::
    "typewriter \<Rightarrow> database \<Rightarrow> refList \<Rightarrow> error + (string option \<times> (string \<times> jsval) list)" where
  "pass2 tw db propertyRefList =
     forEach (typeStep tw db propertyRefList) (all_typeDefinition db) (None, [])"

definition generate :: "typewriter \<Rightarrow> database \<Rightarrow> error + Specification" where
  "generate tw db =
     (case pass1 tw db of
        Inl err \<Rightarrow> Inl err
      | Inr (resourceTypes, propertyRefList) \<Rightarrow>
         (case pass2 tw db propertyRefList of
            Inl err \<Rightarrow> Inl err
          | Inr (resourceName, propertyTypes) \<Rightarrow>
              Inr \<lparr>cdkResources = JObject resourceTypes, cdkTypes = JObject propertyTypes\<rparr>))"

text \<open>
  \<^verbatim>\<open>index.ts\<close>: the two documents are written when \<^verbatim>\<open>generate\<close> resolves, and
  \<^verbatim>\<open>core.setFailed\<close> is called when it rejects. The outcome keeps the files written,
  by name, and the error reported.
\<close>

record outcome =
  written :: "(string \<times> jsval) list"
  setFailed :: "error option"

definition main :: "typewriter \<Rightarrow> database \<Rightarrow> outcome" where
  "main tw db =
     (case generate tw db of
        Inr schema \<Rightarrow>
          \<lparr>written = [(''cdk-resources.json'', cdkResources schema),
                      (''cdk-types.json'', cdkTypes schema)],
           setFailed = None\<rparr>
      | Inl err \<Rightarrow> \<lparr>written = [], setFailed = Some err\<rparr>)"

section \<open>What the properties are stated with\<close>

subsection \<open>Reading the emitted documents\<close>

text \<open>
  The members of an emitted object in insertion order, its keys, and the value under a
  key (\<^verbatim>\<open>undefined\<close> when the key is absent).
\<close>

definition members :: "jsval \<Rightarrow> (string \<times> jsval) list" where
  "members v = (case v of JObject kvs \<Rightarrow> kvs | _ \<Rightarrow> [])"

definition keys :: "jsval \<Rightarrow> string list" where
  "keys v = map fst (members v)"

definition field :: "jsval \<Rightarrow> string \<Rightarrow> jsval" where
  "field v k = (case map_of (members v) k of Some x \<Rightarrow> x | None \<Rightarrow> JUndefined)"

definition attributeEntry :: "string \<Rightarrow> jsval \<Rightarrow> bool" where
  "attributeEntry k v =
     (keys v = [''name'', ''valueType'', ''previousType''] \<and> field v ''name'' = JString k)"

definition propertyEntry :: "string \<Rightarrow> jsval \<Rightarrow> bool" where
  "propertyEntry k v =
     (keys v = [''name'', ''valueType'', ''required''] \<and> field v ''name'' = JString k)"

definition resourceEntry :: "jsval \<Rightarrow> bool" where
  "resourceEntry e =
     (keys e = [''construct'', ''attributes'', ''properties'']
      \<and> (\<forall>(k, v) \<in> set (members (field e ''attributes'')). attributeEntry k v)
      \<and> (\<forall>(k, v) \<in> set (members (field e ''properties'')). propertyEntry k v))"

definition typeEntry :: "jsval \<Rightarrow> bool" where
  "typeEntry e =
     (keys e = [''name'', ''properties'']
      \<and> (\<forall>(k, v) \<in> set (members (field e ''properties'')). propertyEntry k v))"


subsection \<open>Tags, first occurrences, owners\<close>

text \<open>The tags that have a \<^verbatim>\<open>case\<close> in \<^verbatim>\<open>doGetType\<close>.\<close>

definition recognizedTags :: "string list" where
  "recognizedTags =
     [''string'', ''boolean'', ''number'', ''integer'', ''date-time'', ''ref'',
      ''array'', ''json'', ''map'', ''tag'', ''union'', ''null'']"

text \<open>
  \<open>firstOccurrence pat a b\<close>: in the string \<open>a @ pat @ b\<close> no occurrence of \<open>pat\<close>
  starts before the one that follows \<open>a\<close>.
\<close>

definition firstOccurrence :: "string \<Rightarrow> string \<Rightarrow> string \<Rightarrow> bool" where
  "firstOccurrence pat a b = (\<forall>i<length a. \<not> prefix pat (drop i (a @ pat @ b)))"




subsection \<open>Example inputs\<close>

text \<open>
  The canonical descriptors of the external package are fixed here for the examples
  only; every theorem below holds for any \<open>typewriter\<close>.
\<close>

definition tw_example :: typewriter where
  "tw_example =
     \<lparr>STRING_spec = JObject [(''primitive'', JString ''string'')],
      BOOLEAN_spec = JObject [(''primitive'', JString ''boolean'')],
      NUMBER_spec = JObject [(''primitive'', JString ''number'')],
      DATE_TIME_spec = JObject [(''primitive'', JString ''date-time'')],
      UNDEFINED_spec = JObject [(''primitive'', JString ''undefined'')]\<rparr>"

definition string_t :: propertyType where
  "string_t = PropertyType ''string'' None None None"

definition json_t :: propertyType where
  "json_t = PropertyType ''json'' None None None"

definition tag_t :: propertyType where
  "tag_t = PropertyType ''tag'' None None None"

definition ref_t :: "string \<Rightarrow> propertyType" where
  "ref_t i = PropertyType ''ref'' (Some i) None None"

definition svc_s3 :: service where
  "svc_s3 = \<lparr>svc_name = ''aws-s3'', cloudFormationNamespace = ''AWS::S3''\<rparr>"

definition bucket :: resource where
  "bucket =
     \<lparr>cloudFormationType = ''AWS::S3::Bucket'', res_name = ''Bucket'',
      attributes =
        [(''Arn'', \<lparr>attr_type = string_t, attr_previousTypes = Some [json_t]\<rparr>)],
      properties =
        [(''BucketName'',
            \<lparr>prop_type = string_t, prop_previousTypes = None, required = Some True\<rparr>),
         (''Rule'',
            \<lparr>prop_type = ref_t ''7'', prop_previousTypes = Some [], required = None\<rparr>)]\<rparr>"

definition accessPoint :: resource where
  "accessPoint =
     \<lparr>cloudFormationType = ''AWS::S3::AccessPoint'', res_name = ''AccessPoint'',
      attributes = [],
      properties =
        [(''Rule'',
            \<lparr>prop_type = ref_t ''7'', prop_previousTypes = None, required = None\<rparr>)]\<rparr>"

definition rule_td :: typeDefinition where
  "rule_td =
     \<lparr>td_id = ''7'', td_name = ''Rule'',
      td_properties =
        [(''Status'',
            \<lparr>prop_type = string_t, prop_previousTypes = Some [json_t, tag_t],
             required = Some False\<rparr>)]\<rparr>"

definition filter_td :: typeDefinition where
  "filter_td = \<lparr>td_id = ''8'', td_name = ''Filter'', td_properties = []\<rparr>"

definition db_example :: database where
  "db_example =
     \<lparr>all_service = [svc_s3], all_resource = [bucket],
      all_typeDefinition = [rule_td, filter_td]\<rparr>"

text \<open>Two resources that reference the same type definition.\<close>

definition db_shared :: database where
  "db_shared =
     \<lparr>all_service = [svc_s3], all_resource = [bucket, accessPoint],
      all_typeDefinition = [rule_td]\<rparr>"

text \<open>A resource whose namespace no service has.\<close>

definition db_orphan :: database where
  "db_orphan =
     \<lparr>all_service = [svc_s3],
      all_resource =
        [\<lparr>cloudFormationType = ''AWS::EC2::Instance'', res_name = ''Instance'',
          attributes = [], properties = []\<rparr>],
      all_typeDefinition = []\<rparr>"

text \<open>
  A resource type of four segments: pass 1 looks up its first two segments, pass 2
  all but the last segment of the owner.
\<close>

definition db_nested :: database where
  "db_nested =
     \<lparr>all_service = [svc_s3],
      all_resource =
        [\<lparr>cloudFormationType = ''AWS::S3::Bucket::Policy'', res_name = ''Policy'',
          attributes = [],
          properties =
            [(''Rule'',
                \<lparr>prop_type = ref_t ''7'', prop_previousTypes = None, required = None\<rparr>)]\<rparr>],
      all_typeDefinition = [rule_td]\<rparr>"

text \<open>A type definition that no resource references, and no resource at all.\<close>

definition db_unowned :: database where
  "db_unowned =
     \<lparr>all_service = [svc_s3], all_resource = [], all_typeDefinition = [filter_td]\<rparr>"

text \<open>The documents that \<^verbatim>\<open>generate\<close> returns on \<open>db_example\<close>.\<close>

definition schema_example :: Specification where
  "schema_example =
     \<lparr>cdkResources = JObject
        [(''AWS::S3::Bucket'', JObject
           [(''construct'', construct svc_s3 bucket),
            (''attributes'', JObject
               [(''Arn'', JObject
                  [(''name'', JString ''Arn''),
                   (''valueType'', JObject [(''primitive'', JString ''string'')]),
                   (''previousType'', JObject [(''primitive'', JString ''json'')])])]),
            (''properties'', JObject
               [(''BucketName'', JObject
                  [(''name'', JString ''BucketName''),
                   (''valueType'', JObject [(''primitive'', JString ''string'')]),
                   (''required'', JBool True)]),
                (''Rule'', JObject
                  [(''name'', JString ''Rule''),
                   (''valueType'', JObject [(''named'', JString ''AWS::S3::Bucket.Rule'')]),
                   (''required'', JUndefined)])])])],
      cdkTypes = JObject
        [(''AWS::S3::Bucket.RuleProperty'', JObject
           [(''name'', typeNaming svc_s3 [''AWS'', ''S3''] ''CfnBucket.RuleProperty''),
            (''properties'', JObject
               [(''Status'', JObject
                  [(''name'', JString ''Status''),
                   (''valueType'', JObject [(''named'', JString ''CfnTag'')]),
                   (''required'', JBool False)])])]),
         (''AWS::S3::Bucket.FilterProperty'', JObject
           [(''name'', typeNaming svc_s3 [''AWS'', ''S3''] ''CfnBucket.FilterProperty''),
            (''properties'', JObject [])])]\<rparr>"

section \<open>Auxiliary lemmas\<close>

subsection \<open>Loops and association lists\<close>

lemma forEach_invariant:
  assumes "forEach body xs s = Inr s'" and "I s"
    and "\<And>x t t'. x \<in> set xs \<Longrightarrow> I t \<Longrightarrow> body x t = Inr t' \<Longrightarrow> I t'"
  shows "I s'"
  using assms
proof (induction xs arbitrary: s)
  case Nil
  then show ?case by simp
next
  case (Cons x xs)
  from Cons.prems(1) obtain t where t: "body x s = Inr t" and rest: "forEach body xs t = Inr s'"
    by (auto split: sum.splits)
  have "I t" using Cons.prems(3) [of x s t] Cons.prems(2) t by simp
  then show ?case
  proof (rule Cons.IH [OF rest])
    fix y u u'
    assume "y \<in> set xs" and "I u" and "body y u = Inr u'"
    then show "I u'" using Cons.prems(3) [of y u u'] by simp
  qed
qed

lemma update_all:
  assumes "\<forall>(k, v) \<in> set l. P k v" and "P k v"
  shows "\<forall>(k, v) \<in> set (AList.update k v l). P k v"
  using assms by (induction l) (auto)

lemma map_of_update_same: "map_of (AList.update k v l) k = Some v"
  by (simp add: update_conv')

lemma forEach_append:
  "forEach body (xs @ ys) s =
     (case forEach body xs s of Inl err \<Rightarrow> Inl err | Inr s' \<Rightarrow> forEach body ys s')"
  by (induction xs arbitrary: s) (auto split: sum.splits)

lemma forEach_fails:
  assumes "x \<in> set xs" and "\<And>t. \<exists>err. body x t = Inl err"
  shows "\<exists>err. forEach body xs s = Inl err"
  using assms(1)
proof (induction xs arbitrary: s)
  case Nil
  then show ?case by simp
next
  case (Cons y ys)
  show ?case
  proof (cases "body y s")
    case (Inl err)
    then show ?thesis by simp
  next
    case (Inr t)
    show ?thesis
    proof (cases "x = y")
      case True
      with assms(2) [of s] Inr show ?thesis by simp
    next
      case False
      with Cons.prems have "x \<in> set ys" by simp
      from Cons.IH [OF this, of t] Inr show ?thesis by simp
    qed
  qed
qed

subsection \<open>The shape of the emitted entries\<close>

lemma attributeStep_shape:
  assumes "attributeStep tw db cfnType x s = Inr s'"
    and "\<forall>(k, v) \<in> set (snd s). attributeEntry k v"
  shows "\<forall>(k, v) \<in> set (snd s'). attributeEntry k v"
proof -
  obtain id' a where x: "x = (id', a)" by (cases x)
  obtain refs l where s: "s = (refs, l)" by (cases s)
  from assms(1) obtain ty pv where l': "snd s' = AList.update id'
      (JObject [(''name'', JString id'), (''valueType'', ty), (''previousType'', pv)]) l"
    by (auto simp: x s split: sum.splits)
  have "attributeEntry id' (JObject [(''name'', JString id'), (''valueType'', ty), (''previousType'', pv)])"
    by (simp add: attributeEntry_def keys_def members_def field_def)
  with assms(2) show ?thesis unfolding l' s snd_conv by (rule update_all)
qed

lemma propertyStep_shape:
  assumes "propertyStep tw db cfnType x s = Inr s'"
    and "\<forall>(k, v) \<in> set (snd s). propertyEntry k v"
  shows "\<forall>(k, v) \<in> set (snd s'). propertyEntry k v"
proof -
  obtain id' p where x: "x = (id', p)" by (cases x)
  obtain refs l where s: "s = (refs, l)" by (cases s)
  from assms(1) obtain v r where l': "snd s' = AList.update id'
      (JObject [(''name'', JString id'), (''valueType'', v), (''required'', r)]) l"
    by (auto simp: x s split: sum.splits)
  have "propertyEntry id' (JObject [(''name'', JString id'), (''valueType'', v), (''required'', r)])"
    by (simp add: propertyEntry_def keys_def members_def field_def)
  with assms(2) show ?thesis unfolding l' s snd_conv by (rule update_all)
qed

lemma typePropertyStep_shape:
  assumes "typePropertyStep tw db owner x l = Inr l'"
    and "\<forall>(k, v) \<in> set l. propertyEntry k v"
  shows "\<forall>(k, v) \<in> set l'. propertyEntry k v"
proof -
  obtain id' p where x: "x = (id', p)" by (cases x)
  from assms(1) obtain v r where l': "l' = AList.update id'
      (JObject [(''name'', JString id'), (''valueType'', v), (''required'', r)]) l"
    by (auto simp: x split: sum.splits)
  have "propertyEntry id' (JObject [(''name'', JString id'), (''valueType'', v), (''required'', r)])"
    by (simp add: propertyEntry_def keys_def members_def field_def)
  with assms(2) show ?thesis unfolding l' by (rule update_all)
qed

lemma attributes_loop_shape:
  assumes "forEach (attributeStep tw db cfnType) xs (refs, []) = Inr (refs', l')"
  shows "\<forall>(k, v) \<in> set l'. attributeEntry k v"
proof -
  have "\<forall>(k, v) \<in> set (snd (refs', l')). attributeEntry k v"
    by (rule forEach_invariant [OF assms, where I = "\<lambda>s. \<forall>(k, v) \<in> set (snd s). attributeEntry k v"])
       (simp, erule attributeStep_shape)
  then show ?thesis by simp
qed

lemma properties_loop_shape:
  assumes "forEach (propertyStep tw db cfnType) xs (refs, []) = Inr (refs', l')"
  shows "\<forall>(k, v) \<in> set l'. propertyEntry k v"
proof -
  have "\<forall>(k, v) \<in> set (snd (refs', l')). propertyEntry k v"
    by (rule forEach_invariant [OF assms, where I = "\<lambda>s. \<forall>(k, v) \<in> set (snd s). propertyEntry k v"])
       (simp, erule propertyStep_shape)
  then show ?thesis by simp
qed

lemma typeProperties_loop_shape:
  assumes "forEach (typePropertyStep tw db owner) xs [] = Inr l'"
  shows "\<forall>(k, v) \<in> set l'. propertyEntry k v"
  by (rule forEach_invariant [OF assms, where I = "\<lambda>l. \<forall>(k, v) \<in> set l. propertyEntry k v"])
     (simp, erule typePropertyStep_shape)

lemma resourceStep_shape:
  assumes "resourceStep tw db r s = Inr s'"
    and "\<forall>(k, e) \<in> set (fst s). resourceEntry e"
  shows "\<forall>(k, e) \<in> set (fst s'). resourceEntry e"
proof -
  obtain rts refs where s: "s = (rts, refs)" by (cases s)
  from assms(1) obtain svc refs1 refs2 al pl where
    al: "forEach (attributeStep tw db (cloudFormationType r)) (attributes r) (refs, []) = Inr (refs1, al)"
    and pl: "forEach (propertyStep tw db (cloudFormationType r)) (properties r) (refs1, []) = Inr (refs2, pl)"
    and rts': "fst s' = AList.update (cloudFormationType r)
        (JObject [(''construct'', construct svc r), (''attributes'', JObject al),
                  (''properties'', JObject pl)]) rts"
    by (auto simp: s Let_def split: sum.splits)
  have "resourceEntry (JObject [(''construct'', construct svc r), (''attributes'', JObject al),
                  (''properties'', JObject pl)])"
    using attributes_loop_shape [OF al] properties_loop_shape [OF pl]
    by (simp add: resourceEntry_def keys_def members_def field_def)
  with assms(2) show ?thesis unfolding rts' s fst_conv
    by (rule update_all [where P = "\<lambda>k e. resourceEntry e"])
qed

lemma typeStep_shape:
  assumes "typeStep tw db refs d s = Inr s'"
    and "\<forall>(k, e) \<in> set (snd s). typeEntry e"
  shows "\<forall>(k, e) \<in> set (snd s'). typeEntry e"
proof -
  obtain rn pts where s: "s = (rn, pts)" by (cases s)
  from assms(1) obtain key nm pl owner where
    pl: "forEach (typePropertyStep tw db owner) (td_properties d) [] = Inr pl"
    and pts': "snd s' = AList.update key
        (JObject [(''name'', nm), (''properties'', JObject pl)]) pts"
    by (auto simp: s Let_def split: sum.splits)
  have "typeEntry (JObject [(''name'', nm), (''properties'', JObject pl)])"
    using typeProperties_loop_shape [OF pl]
    by (simp add: typeEntry_def keys_def members_def field_def)
  with assms(2) show ?thesis unfolding pts' s snd_conv
    by (rule update_all [where P = "\<lambda>k e. typeEntry e"])
qed

lemma pass1_shape:
  assumes "pass1 tw db = Inr (rts, refs)"
  shows "\<forall>(k, e) \<in> set rts. resourceEntry e"
proof -
  have "\<forall>(k, e) \<in> set (fst (rts, refs)). resourceEntry e"
    by (rule forEach_invariant [OF assms [unfolded pass1_def],
          where I = "\<lambda>s. \<forall>(k, e) \<in> set (fst s). resourceEntry e"])
       (simp, erule resourceStep_shape)
  then show ?thesis by simp
qed

lemma pass2_shape:
  assumes "pass2 tw db refs = Inr (rn, pts)"
  shows "\<forall>(k, e) \<in> set pts. typeEntry e"
proof -
  have "\<forall>(k, e) \<in> set (snd (rn, pts)). typeEntry e"
    by (rule forEach_invariant [OF assms [unfolded pass2_def],
          where I = "\<lambda>s. \<forall>(k, e) \<in> set (snd s). typeEntry e"])
       (simp, erule typeStep_shape)
  then show ?thesis by simp
qed

subsection \<open>Splitting and replacing\<close>

lemma splitFrom_nonempty: "splitFrom sep acc s \<noteq> []"
  by (induction sep acc s rule: splitFrom.induct) auto

lemma split_nonempty: "split sep s \<noteq> []"
  by (simp add: split_def splitFrom_nonempty)

lemma hd_splitFrom_char:
  "hd (splitFrom [c] acc s) = rev acc @ takeWhile (\<lambda>x. x \<noteq> c) s"
  by (induction s arbitrary: acc) auto

lemma hd_split_char: "hd (split [c] s) = takeWhile (\<lambda>x. x \<noteq> c) s"
  by (simp add: split_def hd_splitFrom_char)

lemma hd_split_prefix:
  "c \<notin> set a \<Longrightarrow> hd (split [c] (a @ c # b)) = a"
  by (induction a) (auto simp: hd_split_char)

lemma hd_split_idem: "hd (split [c] (hd (split [c] s))) = hd (split [c] s)"
  by (simp add: hd_split_char)

lemma replace_first:
  "(\<forall>i<length a. \<not> prefix pat (drop i (a @ pat @ b))) \<Longrightarrow>
     replace pat rep (a @ pat @ b) = a @ rep @ b"
proof (induction a)
  case Nil
  show ?case
  proof (cases "pat @ b")
    case Nil
    then show ?thesis by simp
  next
    case (Cons x xs)
    have "prefix pat (x # xs)" unfolding Cons [symmetric] by simp
    moreover have "drop (length pat) (x # xs) = b" unfolding Cons [symmetric] by simp
    ultimately have "replace pat rep (x # xs) = rep @ b" by simp
    then show ?thesis unfolding Cons [symmetric] by simp
  qed
next
  case (Cons x a)
  from Cons.prems have "\<not> prefix pat (x # a @ pat @ b)" by force
  moreover from Cons.prems have "\<forall>i<length a. \<not> prefix pat (drop i (a @ pat @ b))" by force
  ultimately show ?case using Cons.IH by simp
qed

lemma replace_char:
  "c \<notin> set a \<Longrightarrow> replace [c] rep (a @ c # b) = a @ rep @ b"
  by (induction a) auto

lemma replace_absent:
  "c \<notin> set s \<Longrightarrow> replace [c] rep s = s"
  by (induction s) auto

subsection \<open>Previous types\<close>

lemma mapGetType_snoc:
  assumes "mapGetType tw db ts cfnType = Inr vs" and "getType tw db t cfnType = Inr (v, ids)"
  shows "mapGetType tw db (ts @ [t]) cfnType = Inr (vs @ [v])"
  using assms by (induction ts arbitrary: vs) (auto split: sum.splits)

lemma previousTypeOf_last:
  assumes "mapGetType tw db ts cfnType = Inr vs" and "getType tw db t cfnType = Inr (v, ids)"
  shows "previousTypeOf tw db (Some (ts @ [t])) cfnType = Inr v"
  using mapGetType_snoc [OF assms] by (simp add: previousTypeOf_def pop_def)

subsection \<open>Referenced identifiers and the reference table\<close>

lemma get_typeDefinition_id: "get_typeDefinition db i = Inr t \<Longrightarrow> td_id t = i"
  by (auto simp: get_typeDefinition_def find_Some_iff split: option.splits)













subsection \<open>Owners and failing steps\<close>

lemma resolveOwner_entry:
  "map_of refs (td_id D) = Some entry \<Longrightarrow> resolveOwner refs D rn = Inr (hd (split ''.'' entry))"
  by (simp add: resolveOwner_def)

lemma resolveOwner_carry:
  "map_of refs (td_id D) = None \<Longrightarrow>
     resolveOwner refs D rn = (case rn of None \<Rightarrow> Inl TypeError | Some s \<Rightarrow> Inr (hd (split ''.'' s)))"
  by (simp add: resolveOwner_def)

lemma typeStep_result:
  assumes "typeStep tw db refs D (rn, pts) = Inr (rn', pts')"
  shows "\<exists>owner v. resolveOwner refs D rn = Inr owner \<and> rn' = Some owner
           \<and> pts' = AList.update (fullPropertyName owner D) v pts"
  using assms by (auto simp: Let_def split: sum.splits)

lemma only_fails: "length xs \<noteq> 1 \<Longrightarrow> only xs = Inl NotExactlyOne"
  by (cases xs; cases "tl xs") (auto simp: only_def)

lemma resourceStep_fails:
  "length (lookup_service db (serviceTypeOf (cloudFormationType r))) \<noteq> 1 \<Longrightarrow>
     resourceStep tw db r s = Inl NotExactlyOne"
  by (cases s) (simp add: only_fails)

lemma typeStep_fails:
  "resolveOwner refs D rn = Inr owner \<Longrightarrow>
   length (lookup_service db (join ''::'' (butlast (split ''::'' owner)))) \<noteq> 1 \<Longrightarrow>
     typeStep tw db refs D (rn, pts) = Inl NotExactlyOne"
  by (simp add: only_fails Let_def)

lemma resourceStep_construct:
  assumes "resourceStep tw db r (rts, refs) = Inr (rts', refs')"
  shows "\<exists>s. only (lookup_service db (serviceTypeOf (cloudFormationType r))) = Inr s
           \<and> field (field (JObject rts') (cloudFormationType r)) ''construct'' = construct s r"
  using assms
  by (auto simp: Let_def field_def members_def map_of_update_same split: sum.splits)

lemma replace_firstOccurrence:
  "firstOccurrence pat a b \<Longrightarrow> replace pat rep (a @ pat @ b) = a @ rep @ b"
  unfolding firstOccurrence_def by (rule replace_first)

lemma attributeStep_valueType:
  assumes "getType tw db (attr_type a) cfnType = Inr (v, ids)"
  shows "attributeStep tw db cfnType (id', a) (refs, l) =
           (case previousTypeOf tw db (attr_previousTypes a) cfnType of
              Inl err \<Rightarrow> Inl err
            | Inr pv \<Rightarrow>
                Inr (recordRefs cfnType ids refs,
                     AList.update id'
                       (JObject [(''name'', JString id'), (''valueType'', v),
                                 (''previousType'', pv)]) l))"
  using assms by simp

lemma typeStep_carry:
  assumes "map_of refs (td_id D1) = Some entry"
    and "map_of refs (td_id D2) = None"
    and "typeStep tw db refs D1 (rn0, pts0) = Inr (rn1, pts1)"
    and "typeStep tw db refs D2 (rn1, pts1) = Inr (rn2, pts2)"
  shows "rn1 = Some (hd (split ''.'' entry))
       \<and> resolveOwner refs D2 rn1 = Inr (hd (split ''.'' entry))
       \<and> rn2 = Some (hd (split ''.'' entry))
       \<and> (\<exists>v. pts2 = AList.update (hd (split ''.'' entry) @ ''.'' @ td_name D2 @ ''Property'') v pts1)"
proof -
  let ?R = "hd (split ''.'' entry)"
  from typeStep_result [OF assms(3)] resolveOwner_entry [OF assms(1)]
  have rn1: "rn1 = Some ?R" by auto
  have own: "resolveOwner refs D2 rn1 = Inr ?R"
    by (simp add: resolveOwner_carry [OF assms(2)] rn1 hd_split_idem)
  from typeStep_result [OF assms(4)] own
  obtain v where "rn2 = Some ?R" and "pts2 = AList.update (fullPropertyName ?R D2) v pts1"
    by auto
  then show ?thesis using rn1 own by (auto simp: fullPropertyName_def)
qed

lemma typeStep_keys:
  assumes "typeStep tw db refs D s = Inr s'"
  shows "fst ` set (snd s) \<subseteq> fst ` set (snd s')"
proof -
  obtain rn pts where s: "s = (rn, pts)" by (cases s)
  obtain rn' pts' where s': "s' = (rn', pts')" by (cases s')
  from typeStep_result [OF assms [unfolded s s']]
  obtain k v where "pts' = AList.update k v pts" by blast
  then show ?thesis by (auto simp: s s' dom_update)
qed

lemma typeSteps_keys:
  assumes "forEach (typeStep tw db refs) ds s = Inr s'"
  shows "fst ` set (snd s) \<subseteq> fst ` set (snd s')"
  by (rule forEach_invariant [OF assms, where I = "\<lambda>t. fst ` set (snd s) \<subseteq> fst ` set (snd t)"])
     (simp, drule typeStep_keys, blast)

section \<open>The properties\<close>

lemmas ex_defs = tw_example_def string_t_def json_t_def tag_t_def ref_t_def svc_s3_def bucket_def
  accessPoint_def rule_td_def filter_td_def db_example_def db_shared_def db_orphan_def
  db_nested_def db_unowned_def

lemmas run_defs = generate_def pass1_def pass2_def serviceTypeOf_def split_def lookup_service_def
  only_def getType_def previousTypeOf_def pop_def nullish_def ofRequired_def recordRefs_def
  get_typeDefinition_def resolveOwner_def fullPropertyName_def Let_def

lemma generate_example: "generate tw_example db_example = Inr schema_example"
  by (simp add: schema_example_def run_defs ex_defs)

subsection \<open>Previous types\<close>

text \<open>
  Claim C1, as the code has it. Let the current type of a field resolve to \<open>v\<close>.
  If the field is a property, of a resource or of a type definition, that declares the
  previous types \<open>ts @ [tn]\<close>, all of which resolve, \<open>tn\<close> to \<open>vn\<close>, then it is emitted
  with \<open>vn\<close> as its \<^verbatim>\<open>valueType\<close>, unless \<open>vn\<close> is \<^verbatim>\<open>undefined\<close> or \<^verbatim>\<open>null\<close>, in
  which case it is \<open>v\<close>; a property without previous types is emitted with \<open>v\<close>, in a
  resource and in a type definition. Every attribute, whatever previous types it
  declares, is emitted with \<open>v\<close> as its \<^verbatim>\<open>valueType\<close>, and with the last resolved
  previous type under the key \<^verbatim>\<open>previousType\<close>: \<open>vn\<close> for the previous types
  \<open>ts @ [tn]\<close>, \<^verbatim>\<open>undefined\<close> for none and for the empty list.
\<close>

theorem previous_type_precedence:
  assumes "mapGetType tw db ts cfnType = Inr vs"
    and "getType tw db tn cfnType = Inr (vn, idsn)"
    and "getType tw db current cfnType = Inr (v, ids)"
  shows "propertyStep tw db cfnType
           (id', \<lparr>prop_type = current, prop_previousTypes = Some (ts @ [tn]), required = r\<rparr>)
           (refs, l) =
         Inr (recordRefs cfnType ids refs,
              AList.update id'
                (JObject [(''name'', JString id'),
                          (''valueType'', if vn = JUndefined \<or> vn = JNull then v else vn),
                          (''required'', ofRequired r)]) l)
       \<and> typePropertyStep tw db cfnType
           (id', \<lparr>prop_type = current, prop_previousTypes = Some (ts @ [tn]), required = r\<rparr>) l =
         Inr (AList.update id'
                (JObject [(''name'', JString id'),
                          (''valueType'', if vn = JUndefined \<or> vn = JNull then v else vn),
                          (''required'', ofRequired r)]) l)
       \<and> attributeStep tw db cfnType
           (id', \<lparr>attr_type = current, attr_previousTypes = Some (ts @ [tn])\<rparr>) (refs, l) =
         Inr (recordRefs cfnType ids refs,
              AList.update id'
                (JObject [(''name'', JString id'),
                          (''valueType'', v),
                          (''previousType'', vn)]) l)
       \<and> propertyStep tw db cfnType
           (id', \<lparr>prop_type = current, prop_previousTypes = None, required = r\<rparr>) (refs, l) =
         Inr (recordRefs cfnType ids refs,
              AList.update id'
                (JObject [(''name'', JString id'),
                          (''valueType'', v),
                          (''required'', ofRequired r)]) l)
       \<and> typePropertyStep tw db cfnType
           (id', \<lparr>prop_type = current, prop_previousTypes = None, required = r\<rparr>) l =
         Inr (AList.update id'
                (JObject [(''name'', JString id'),
                          (''valueType'', v),
                          (''required'', ofRequired r)]) l)
       \<and> (\<forall>a pv. attr_type a = current
              \<and> previousTypeOf tw db (attr_previousTypes a) cfnType = Inr pv \<longrightarrow>
            attributeStep tw db cfnType (id', a) (refs, l) =
              Inr (recordRefs cfnType ids refs,
                   AList.update id'
                     (JObject [(''name'', JString id'),
                               (''valueType'', v),
                               (''previousType'', pv)]) l))
       \<and> (\<forall>a refs' l'. attr_type a = current
              \<and> attributeStep tw db cfnType (id', a) (refs, l) = Inr (refs', l') \<longrightarrow>
            field (field (JObject l') id') ''valueType'' = v)
       \<and> previousTypeOf tw db None cfnType = Inr JUndefined
       \<and> previousTypeOf tw db (Some []) cfnType = Inr JUndefined
       \<and> previousTypeOf tw db (Some (ts @ [tn])) cfnType = Inr vn"
proof -
  have pv: "previousTypeOf tw db (Some (ts @ [tn])) cfnType = Inr vn"
    by (rule previousTypeOf_last [OF assms(1,2)])
  have none: "previousTypeOf tw db None cfnType = Inr JUndefined"
    by (simp add: previousTypeOf_def)
  have empty: "previousTypeOf tw db (Some []) cfnType = Inr JUndefined"
    by (simp add: previousTypeOf_def pop_def)
  have p1: "propertyStep tw db cfnType
           (id', \<lparr>prop_type = current, prop_previousTypes = Some (ts @ [tn]), required = r\<rparr>)
           (refs, l) =
         Inr (recordRefs cfnType ids refs,
              AList.update id'
                (JObject [(''name'', JString id'),
                          (''valueType'', if vn = JUndefined \<or> vn = JNull then v else vn),
                          (''required'', ofRequired r)]) l)"
    using pv assms(3) by (simp add: nullish_def)
  have p2: "typePropertyStep tw db cfnType
           (id', \<lparr>prop_type = current, prop_previousTypes = Some (ts @ [tn]), required = r\<rparr>) l =
         Inr (AList.update id'
                (JObject [(''name'', JString id'),
                          (''valueType'', if vn = JUndefined \<or> vn = JNull then v else vn),
                          (''required'', ofRequired r)]) l)"
    using pv assms(3) by (simp add: nullish_def)
  have a1: "attributeStep tw db cfnType
           (id', \<lparr>attr_type = current, attr_previousTypes = Some (ts @ [tn])\<rparr>) (refs, l) =
         Inr (recordRefs cfnType ids refs,
              AList.update id'
                (JObject [(''name'', JString id'),
                          (''valueType'', v),
                          (''previousType'', vn)]) l)"
    using pv assms(3) by simp
  have p3: "propertyStep tw db cfnType
           (id', \<lparr>prop_type = current, prop_previousTypes = None, required = r\<rparr>) (refs, l) =
         Inr (recordRefs cfnType ids refs,
              AList.update id'
                (JObject [(''name'', JString id'),
                          (''valueType'', v),
                          (''required'', ofRequired r)]) l)"
    using none assms(3) by (simp add: nullish_def)
  have p4: "typePropertyStep tw db cfnType
           (id', \<lparr>prop_type = current, prop_previousTypes = None, required = r\<rparr>) l =
         Inr (AList.update id'
                (JObject [(''name'', JString id'),
                          (''valueType'', v),
                          (''required'', ofRequired r)]) l)"
    using none assms(3) by (simp add: nullish_def)
  have a2: "\<forall>a pv. attr_type a = current
              \<and> previousTypeOf tw db (attr_previousTypes a) cfnType = Inr pv \<longrightarrow>
            attributeStep tw db cfnType (id', a) (refs, l) =
              Inr (recordRefs cfnType ids refs,
                   AList.update id'
                     (JObject [(''name'', JString id'),
                               (''valueType'', v),
                               (''previousType'', pv)]) l)"
    using assms(3) by (simp add: attributeStep_valueType)
  have a3: "\<forall>a refs' l'. attr_type a = current
              \<and> attributeStep tw db cfnType (id', a) (refs, l) = Inr (refs', l') \<longrightarrow>
            field (field (JObject l') id') ''valueType'' = v"
  proof (intro allI impI, elim conjE)
    fix a refs' l'
    assume "attr_type a = current"
      and "attributeStep tw db cfnType (id', a) (refs, l) = Inr (refs', l')"
    with assms(3) obtain w where "l' = AList.update id'
        (JObject [(''name'', JString id'), (''valueType'', v), (''previousType'', w)]) l"
      by (auto simp: attributeStep_valueType split: sum.splits)
    then show "field (field (JObject l') id') ''valueType'' = v"
      by (simp add: field_def members_def map_of_update_same)
  qed
  show ?thesis
    by (intro conjI) (fact p1 p2 a1 p3 p4 a2 a3 none empty pv)+
qed

theorem previous_type_precedence_witness:
  "mapGetType tw_example db_example [json_t] ''AWS::S3::Bucket''
     = Inr [JObject [(''primitive'', JString ''json'')]]
   \<and> getType tw_example db_example tag_t ''AWS::S3::Bucket''
     = Inr (JObject [(''named'', JString ''CfnTag'')], [])
   \<and> getType tw_example db_example string_t ''AWS::S3::Bucket''
     = Inr (JObject [(''primitive'', JString ''string'')], [])
   \<and> propertyStep tw_example db_example ''AWS::S3::Bucket''
        (''Status'', \<lparr>prop_type = string_t, prop_previousTypes = Some ([json_t] @ [tag_t]),
                      required = Some False\<rparr>) ([], [])
     = Inr ([], [(''Status'', JObject
                    [(''name'', JString ''Status''),
                     (''valueType'', JObject [(''named'', JString ''CfnTag'')]),
                     (''required'', JBool False)])])
   \<and> attributeStep tw_example db_example ''AWS::S3::Bucket''
        (''Status'', \<lparr>attr_type = string_t, attr_previousTypes = Some ([json_t] @ [tag_t])\<rparr>)
        ([], [])
     = Inr ([], [(''Status'', JObject
                    [(''name'', JString ''Status''),
                     (''valueType'', JObject [(''primitive'', JString ''string'')]),
                     (''previousType'', JObject [(''named'', JString ''CfnTag'')])])])
   \<and> previousTypeOf tw_example db_example None ''AWS::S3::Bucket'' = Inr JUndefined
   \<and> attributeStep tw_example db_example ''AWS::S3::Bucket''
        (''Status'', \<lparr>attr_type = string_t, attr_previousTypes = None\<rparr>) ([], [])
     = Inr ([], [(''Status'', JObject
                    [(''name'', JString ''Status''),
                     (''valueType'', JObject [(''primitive'', JString ''string'')]),
                     (''previousType'', JUndefined)])])
   \<and> typePropertyStep tw_example db_example ''AWS::S3::Bucket''
        (''Status'', \<lparr>prop_type = string_t, prop_previousTypes = None, required = Some False\<rparr>)
        []
     = Inr [(''Status'', JObject
                    [(''name'', JString ''Status''),
                     (''valueType'', JObject [(''primitive'', JString ''string'')]),
                     (''required'', JBool False)])]"
proof -
  have 1: "mapGetType tw_example db_example [json_t] ''AWS::S3::Bucket''
     = Inr [JObject [(''primitive'', JString ''json'')]]"
    by (simp add: getType_def json_t_def)
  have 2: "getType tw_example db_example tag_t ''AWS::S3::Bucket''
     = Inr (JObject [(''named'', JString ''CfnTag'')], [])"
    by (simp add: getType_def tag_t_def)
  have 3: "getType tw_example db_example string_t ''AWS::S3::Bucket''
     = Inr (JObject [(''primitive'', JString ''string'')], [])"
    by (simp add: getType_def string_t_def tw_example_def)
  note T = previous_type_precedence [OF 1 2 3, of "''Status''" "Some False" "[]" "[]"]
  have 4: "previousTypeOf tw_example db_example None ''AWS::S3::Bucket'' = Inr JUndefined"
    using T by blast
  from T have "attr_type \<lparr>attr_type = string_t, attr_previousTypes = None\<rparr> = string_t
      \<and> previousTypeOf tw_example db_example
           (attr_previousTypes \<lparr>attr_type = string_t, attr_previousTypes = None\<rparr>)
           ''AWS::S3::Bucket'' = Inr JUndefined \<longrightarrow>
      attributeStep tw_example db_example ''AWS::S3::Bucket''
        (''Status'', \<lparr>attr_type = string_t, attr_previousTypes = None\<rparr>) ([], [])
      = Inr (recordRefs ''AWS::S3::Bucket'' [] [],
             AList.update ''Status''
               (JObject [(''name'', JString ''Status''),
                         (''valueType'', JObject [(''primitive'', JString ''string'')]),
                         (''previousType'', JUndefined)]) [])"
    by blast
  with 4 have 5: "attributeStep tw_example db_example ''AWS::S3::Bucket''
        (''Status'', \<lparr>attr_type = string_t, attr_previousTypes = None\<rparr>) ([], [])
     = Inr ([], [(''Status'', JObject
                    [(''name'', JString ''Status''),
                     (''valueType'', JObject [(''primitive'', JString ''string'')]),
                     (''previousType'', JUndefined)])])"
    by (simp add: recordRefs_def)
  show ?thesis
    using T 1 2 3 4 5
    by (simp add: recordRefs_def ofRequired_def
          del: propertyStep.simps typePropertyStep.simps attributeStep.simps)
qed

text \<open>
  An attribute of current type \<^verbatim>\<open>json\<close> and previous types \<^verbatim>\<open>[tag]\<close>: the previous
  type resolves to \<^verbatim>\<open>{named: 'CfnTag'}\<close>, and the \<^verbatim>\<open>valueType\<close> of the attribute is
  \<^verbatim>\<open>{primitive: 'json'}\<close>, the current type.
\<close>

theorem attribute_valueType_counterexample:
  "getType tw_example db_example tag_t ''AWS::S3::Bucket''
     = Inr (JObject [(''named'', JString ''CfnTag'')], [])
   \<and> attributeStep tw_example db_example ''AWS::S3::Bucket''
        (''Tags'', \<lparr>attr_type = json_t, attr_previousTypes = Some [tag_t]\<rparr>) ([], [])
     = Inr ([], [(''Tags'', JObject
                    [(''name'', JString ''Tags''),
                     (''valueType'', JObject [(''primitive'', JString ''json'')]),
                     (''previousType'', JObject [(''named'', JString ''CfnTag'')])])])
   \<and> JObject [(''primitive'', JString ''json'')] \<noteq> JObject [(''named'', JString ''CfnTag'')]"
  by (simp add: getType_def previousTypeOf_def pop_def recordRefs_def json_t_def tag_t_def)

text \<open>
  Claim C10. A property whose \<^verbatim>\<open>previousTypes\<close> is the empty list is processed as the
  same property without \<^verbatim>\<open>previousTypes\<close>, in a resource and in a type definition, and
  its \<^verbatim>\<open>valueType\<close> is its resolved current type.
\<close>

theorem empty_previous_types:
  assumes "prop_previousTypes property = Some []"
  shows "propertyStep tw db cfnType (id', property) (refs, l) =
           propertyStep tw db cfnType (id', property\<lparr>prop_previousTypes := None\<rparr>) (refs, l)
       \<and> typePropertyStep tw db cfnType (id', property) l =
           typePropertyStep tw db cfnType (id', property\<lparr>prop_previousTypes := None\<rparr>) l
       \<and> (\<forall>v ids. getType tw db (prop_type property) cfnType = Inr (v, ids) \<longrightarrow>
             propertyStep tw db cfnType (id', property) (refs, l) =
               Inr (recordRefs cfnType ids refs,
                    AList.update id'
                      (JObject [(''name'', JString id'),
                                (''valueType'', v),
                                (''required'', ofRequired (required property))]) l)
           \<and> typePropertyStep tw db cfnType (id', property) l =
               Inr (AList.update id'
                      (JObject [(''name'', JString id'),
                                (''valueType'', v),
                                (''required'', ofRequired (required property))]) l))"
  using assms
  by (cases "getType tw db (prop_type property) cfnType")
     (auto simp: previousTypeOf_def pop_def nullish_def)

theorem empty_previous_types_witness:
  "prop_previousTypes \<lparr>prop_type = ref_t ''7'', prop_previousTypes = Some [], required = None\<rparr>
     = Some []
   \<and> getType tw_example db_example (ref_t ''7'') ''AWS::S3::Bucket''
     = Inr (JObject [(''named'', JString ''AWS::S3::Bucket.Rule'')], [(''7'', ''Rule'')])
   \<and> propertyStep tw_example db_example ''AWS::S3::Bucket''
        (''Rule'', \<lparr>prop_type = ref_t ''7'', prop_previousTypes = Some [], required = None\<rparr>)
        ([], [])
     = Inr ([(''7'', ''AWS::S3::Bucket.Rule'')],
            [(''Rule'', JObject
               [(''name'', JString ''Rule''),
                (''valueType'', JObject [(''named'', JString ''AWS::S3::Bucket.Rule'')]),
                (''required'', JUndefined)])])
   \<and> typePropertyStep tw_example db_example ''AWS::S3::Bucket''
        (''Rule'', \<lparr>prop_type = ref_t ''7'', prop_previousTypes = Some [], required = None\<rparr>) []
     = Inr [(''Rule'', JObject
               [(''name'', JString ''Rule''),
                (''valueType'', JObject [(''named'', JString ''AWS::S3::Bucket.Rule'')]),
                (''required'', JUndefined)])]"
proof -
  let ?p = "\<lparr>prop_type = ref_t ''7'', prop_previousTypes = Some [], required = None\<rparr>"
  have g: "getType tw_example db_example (prop_type ?p) ''AWS::S3::Bucket''
     = Inr (JObject [(''named'', JString ''AWS::S3::Bucket.Rule'')], [(''7'', ''Rule'')])"
    by (simp add: getType_def get_typeDefinition_def ex_defs)
  have p: "prop_previousTypes ?p = Some []"
    by simp
  show ?thesis
    using empty_previous_types [OF p, where tw = tw_example and db = db_example
        and cfnType = "''AWS::S3::Bucket''" and id' = "''Rule''" and refs = "[]" and l = "[]"] g
    by (simp add: recordRefs_def ofRequired_def previousTypeOf_def pop_def nullish_def
        getType_def get_typeDefinition_def ex_defs)
qed

subsection \<open>The shape of the entries\<close>

text \<open>
  Claim C2, as the code has it. In the documents that \<^verbatim>\<open>generate\<close> returns, every
  attribute entry of every resource has the keys \<^verbatim>\<open>name\<close>, \<^verbatim>\<open>valueType\<close>,
  \<^verbatim>\<open>previousType\<close>, in this order, and every property entry of every resource and of
  every nested type has the keys \<^verbatim>\<open>name\<close>, \<^verbatim>\<open>valueType\<close>, \<^verbatim>\<open>required\<close>.
\<close>

theorem entry_shapes:
  assumes "generate tw db = Inr schema"
  shows "(\<forall>(cfnType, e) \<in> set (members (cdkResources schema)).
            (\<forall>(k, v) \<in> set (members (field e ''attributes'')).
               keys v = [''name'', ''valueType'', ''previousType''])
          \<and> (\<forall>(k, v) \<in> set (members (field e ''properties'')).
               keys v = [''name'', ''valueType'', ''required'']))
       \<and> (\<forall>(name, e) \<in> set (members (cdkTypes schema)).
            (\<forall>(k, v) \<in> set (members (field e ''properties'')).
               keys v = [''name'', ''valueType'', ''required'']))"
proof -
  from assms obtain rts refs rn pts where
    p1: "pass1 tw db = Inr (rts, refs)" and p2: "pass2 tw db refs = Inr (rn, pts)"
    and schema: "schema = \<lparr>cdkResources = JObject rts, cdkTypes = JObject pts\<rparr>"
    by (auto simp: generate_def split: sum.splits)
  show ?thesis
    using pass1_shape [OF p1] pass2_shape [OF p2]
    unfolding schema
    by (simp add: members_def resourceEntry_def typeEntry_def attributeEntry_def
        propertyEntry_def) blast
qed

theorem entry_shapes_witness:
  "generate tw_example db_example = Inr schema_example
   \<and> keys (field (field (field (cdkResources schema_example) ''AWS::S3::Bucket'')
              ''attributes'') ''Arn'') = [''name'', ''valueType'', ''previousType'']
   \<and> keys (field (field (field (cdkResources schema_example) ''AWS::S3::Bucket'')
              ''properties'') ''Rule'') = [''name'', ''valueType'', ''required'']
   \<and> keys (field (field (field (cdkTypes schema_example) ''AWS::S3::Bucket.RuleProperty'')
              ''properties'') ''Status'') = [''name'', ''valueType'', ''required'']"
  using entry_shapes [OF generate_example] generate_example
  by (simp add: schema_example_def members_def field_def keys_def)

text \<open>
  The attribute \<^verbatim>\<open>Arn\<close> of the example declares a previous type: its entry has a third
  key, \<^verbatim>\<open>previousType\<close>, that holds \<^verbatim>\<open>{primitive: 'json'}\<close>.
\<close>

theorem attribute_entry_counterexample:
  "keys (field (field (field (cdkResources schema_example) ''AWS::S3::Bucket'')
            ''attributes'') ''Arn'') = [''name'', ''valueType'', ''previousType'']
   \<and> field (field (field (field (cdkResources schema_example) ''AWS::S3::Bucket'')
            ''attributes'') ''Arn'') ''previousType'' = JObject [(''primitive'', JString ''json'')]
   \<and> generate tw_example db_example = Inr schema_example"
  using generate_example
  by (simp add: schema_example_def members_def field_def keys_def)

subsection \<open>The type resolver\<close>

text \<open>
  Claim C6. For a descriptor whose tag is none of the recognized tags, \<^verbatim>\<open>getType\<close>
  returns \<^verbatim>\<open>undefined\<close> as the type, with no referenced identifier, and raises no
  error.
\<close>

theorem unrecognized_tag_undefined:
  "ptype p \<notin> set recognizedTags \<Longrightarrow> getType tw db p cfnType = Inr (JUndefined, [])"
  by (cases p) (simp add: getType_def recognizedTags_def)

theorem unrecognized_tag_undefined_witness:
  "ptype (PropertyType ''timestamp'' None None None) \<notin> set recognizedTags
   \<and> getType tw_example db_example (PropertyType ''timestamp'' None None None)
        ''AWS::S3::Bucket'' = Inr (JUndefined, [])"
  using unrecognized_tag_undefined [of "PropertyType ''timestamp'' None None None"
      tw_example db_example "''AWS::S3::Bucket''"]
  by (simp add: recognizedTags_def)

text \<open>
  Claim C7. Resolving a reference to the type definition \<open>D\<close> that the database holds
  under the identifier \<open>i\<close>, in the scope \<open>owner\<close>, returns the type
  \<^verbatim>\<open>{named: '<owner>.<D.name>'}\<close> and the one referenced identifier of \<open>D\<close>, mapped
  to the name of \<open>D\<close>.
\<close>

theorem ref_resolution:
  "get_typeDefinition db i = Inr D \<Longrightarrow>
     td_id D = i
   \<and> getType tw db (PropertyType ''ref'' (Some i) e ts) owner =
       Inr (JObject [(''named'', JString (owner @ ''.'' @ td_name D))],
            [(td_id D, td_name D)])"
  by (simp add: getType_def get_typeDefinition_id)

theorem ref_resolution_witness:
  "get_typeDefinition db_example ''7'' = Inr rule_td
   \<and> td_id rule_td = ''7''
   \<and> getType tw_example db_example (PropertyType ''ref'' (Some ''7'') None None)
        ''AWS::S3::Bucket'' =
       Inr (JObject [(''named'', JString ''AWS::S3::Bucket.Rule'')], [(''7'', ''Rule'')])"
proof -
  have g: "get_typeDefinition db_example ''7'' = Inr rule_td"
    by (simp add: get_typeDefinition_def db_example_def rule_td_def)
  show ?thesis
    using ref_resolution [OF g, of tw_example None None "''AWS::S3::Bucket''"] g
    by (simp add: rule_td_def)
qed

subsection \<open>The reference table\<close>




subsection \<open>Owners in pass 2\<close>

text \<open>
  Claim C4. Let \<open>D2\<close> follow \<open>D1\<close> in the type definitions of the database, \<open>D1\<close> with
  an entry in the reference table and \<open>D2\<close> without one, and let pass 2 succeed. Let
  \<open>R\<close> be the owner recorded by the entry of \<open>D1\<close>, that is the entry up to its first
  dot (for an entry \<^verbatim>\<open><R>.<name>\<close> with no dot in \<open>R\<close> this is \<open>R\<close>). Then the loop
  of pass 2 reaches \<open>D2\<close> with \<open>R\<close> in \<^verbatim>\<open>resourceName\<close>, the owner resolved for \<open>D2\<close>
  is \<open>R\<close>, the loop emits \<open>D2\<close> under the name \<^verbatim>\<open><R>.<D2.name>Property\<close> and goes on
  from there, and that name is a key of the nested-type document that pass 2 and
  \<^verbatim>\<open>generate\<close> return.
\<close>

theorem owner_carry_forward:
  assumes "all_typeDefinition db = pre @ D1 # D2 # post"
    and "map_of refs (td_id D1) = Some entry"
    and "map_of refs (td_id D2) = None"
    and "pass2 tw db refs = Inr (rn, pts)"
  shows "(\<exists>pts1 v.
            forEach (typeStep tw db refs) (pre @ [D1]) (None, [])
              = Inr (Some (hd (split ''.'' entry)), pts1)
          \<and> resolveOwner refs D2 (Some (hd (split ''.'' entry))) = Inr (hd (split ''.'' entry))
          \<and> forEach (typeStep tw db refs) (pre @ [D1, D2]) (None, [])
              = Inr (Some (hd (split ''.'' entry)),
                     AList.update (hd (split ''.'' entry) @ ''.'' @ td_name D2 @ ''Property'') v pts1)
          \<and> pass2 tw db refs
              = forEach (typeStep tw db refs) post
                  (Some (hd (split ''.'' entry)),
                   AList.update (hd (split ''.'' entry) @ ''.'' @ td_name D2 @ ''Property'') v pts1))
       \<and> hd (split ''.'' entry) @ ''.'' @ td_name D2 @ ''Property'' \<in> fst ` set pts
       \<and> (\<forall>rts. pass1 tw db = Inr (rts, refs) \<longrightarrow>
             generate tw db = Inr \<lparr>cdkResources = JObject rts, cdkTypes = JObject pts\<rparr>)
       \<and> (\<forall>R rest. entry = R @ ''.'' @ rest \<and> CHR ''.'' \<notin> set R \<longrightarrow> hd (split ''.'' entry) = R)"
proof -
  let ?R = "hd (split ''.'' entry)"
  let ?f = "typeStep tw db refs"
  have tds: "all_typeDefinition db = pre @ [D1] @ [D2] @ post"
    using assms(1) by simp
  from assms(4) obtain s0 s1 s2 where
    s0: "forEach ?f pre (None, []) = Inr s0" and s1: "?f D1 s0 = Inr s1"
    and s2: "?f D2 s1 = Inr s2" and post: "forEach ?f post s2 = Inr (rn, pts)"
    unfolding pass2_def tds forEach_append
    by (auto split: sum.splits simp del: typeStep.simps)
  obtain rn0 pts0 where e0: "s0 = (rn0, pts0)" by (cases s0)
  obtain rn1 pts1 where e1: "s1 = (rn1, pts1)" by (cases s1)
  obtain rn2 pts2 where e2: "s2 = (rn2, pts2)" by (cases s2)
  from typeStep_carry [OF assms(2,3) s1 [unfolded e0 e1] s2 [unfolded e1 e2]]
  obtain v where rn1: "rn1 = Some ?R" and own: "resolveOwner refs D2 rn1 = Inr ?R"
    and rn2: "rn2 = Some ?R"
    and pts2: "pts2 = AList.update (?R @ ''.'' @ td_name D2 @ ''Property'') v pts1"
    by blast
  have a: "forEach ?f (pre @ [D1]) (None, []) = Inr (Some ?R, pts1)"
    using s0 s1 by (simp add: forEach_append e1 rn1 del: typeStep.simps)
  have b: "forEach ?f (pre @ [D1, D2]) (None, [])
      = Inr (Some ?R, AList.update (?R @ ''.'' @ td_name D2 @ ''Property'') v pts1)"
    using s0 s1 s2 by (simp add: forEach_append e2 rn2 pts2 del: typeStep.simps)
  have c: "pass2 tw db refs
      = forEach ?f post (Some ?R, AList.update (?R @ ''.'' @ td_name D2 @ ''Property'') v pts1)"
    using s0 s1 s2 unfolding pass2_def tds forEach_append
    by (simp add: e2 rn2 pts2 del: typeStep.simps)
  have "?R @ ''.'' @ td_name D2 @ ''Property'' \<in> fst ` set pts2"
    by (simp add: pts2 dom_update)
  with typeSteps_keys [OF post] have k: "?R @ ''.'' @ td_name D2 @ ''Property'' \<in> fst ` set pts"
    by (auto simp: e2)
  have g: "\<forall>rts. pass1 tw db = Inr (rts, refs) \<longrightarrow>
             generate tw db = Inr \<lparr>cdkResources = JObject rts, cdkTypes = JObject pts\<rparr>"
    using assms(4) by (simp add: generate_def)
  have d: "\<forall>R rest. entry = R @ ''.'' @ rest \<and> CHR ''.'' \<notin> set R \<longrightarrow> ?R = R"
    by (auto simp: hd_split_prefix)
  from a b c own [unfolded rn1] k g d show ?thesis by blast
qed

theorem owner_carry_forward_witness:
  "all_typeDefinition db_example = [] @ rule_td # filter_td # []
   \<and> pass1 tw_example db_example
       = Inr (members (cdkResources schema_example), [(''7'', ''AWS::S3::Bucket.Rule'')])
   \<and> map_of [(''7'', ''AWS::S3::Bucket.Rule'')] (td_id rule_td) = Some ''AWS::S3::Bucket.Rule''
   \<and> map_of [(''7'', ''AWS::S3::Bucket.Rule'')] (td_id filter_td) = None
   \<and> pass2 tw_example db_example [(''7'', ''AWS::S3::Bucket.Rule'')]
       = Inr (Some ''AWS::S3::Bucket'', members (cdkTypes schema_example))
   \<and> hd (split ''.'' ''AWS::S3::Bucket.Rule'') = ''AWS::S3::Bucket''
   \<and> resolveOwner [(''7'', ''AWS::S3::Bucket.Rule'')] filter_td (Some ''AWS::S3::Bucket'')
       = Inr ''AWS::S3::Bucket''
   \<and> ''AWS::S3::Bucket.FilterProperty'' \<in> fst ` set (members (cdkTypes schema_example))
   \<and> generate tw_example db_example = Inr schema_example"
proof -
  let ?refs = "[(''7'', ''AWS::S3::Bucket.Rule'')]"
  have 1: "all_typeDefinition db_example = [] @ rule_td # filter_td # []"
    by (simp add: db_example_def)
  have 2: "map_of ?refs (td_id rule_td) = Some ''AWS::S3::Bucket.Rule''"
    by (simp add: rule_td_def)
  have 3: "map_of ?refs (td_id filter_td) = None"
    by (simp add: filter_td_def)
  have 4: "pass2 tw_example db_example ?refs
       = Inr (Some ''AWS::S3::Bucket'', members (cdkTypes schema_example))"
    by (simp add: schema_example_def members_def run_defs ex_defs)
  have 5: "pass1 tw_example db_example = Inr (members (cdkResources schema_example), ?refs)"
    by (simp add: schema_example_def members_def run_defs ex_defs)
  have 6: "hd (split ''.'' ''AWS::S3::Bucket.Rule'') = ''AWS::S3::Bucket''"
    by (simp add: split_def)
  from owner_carry_forward [OF 1 2 3 4] 1 2 3 4 5 6 generate_example
  show ?thesis by (auto simp: filter_td_def)
qed

text \<open>
  Claim C9. When the first type definition of pass 2 has no entry in the reference
  table, \<^verbatim>\<open>resourceName\<close> is still \<^verbatim>\<open>undefined\<close>, \<^verbatim>\<open>.split\<close> throws and the run fails
  with no document written. For a definition without an entry, the owner is defined
  exactly when an earlier definition has left one in \<^verbatim>\<open>resourceName\<close>.
\<close>

theorem first_unreferenced_fails:
  assumes "all_typeDefinition db = D # rest"
    and "pass1 tw db = Inr (rts, refs)"
    and "map_of refs (td_id D) = None"
  shows "generate tw db = Inl TypeError
       \<and> main tw db = \<lparr>written = [], setFailed = Some TypeError\<rparr>
       \<and> (\<forall>D'. map_of refs (td_id D') = None \<longrightarrow>
             resolveOwner refs D' None = Inl TypeError
           \<and> (\<forall>R. resolveOwner refs D' (Some R) = Inr (hd (split ''.'' R))))"
proof -
  have "typeStep tw db refs D (None, []) = Inl TypeError"
    using assms(3) by (simp add: resolveOwner_def)
  then have "pass2 tw db refs = Inl TypeError"
    by (simp add: pass2_def assms(1))
  then have g: "generate tw db = Inl TypeError"
    by (simp add: generate_def assms(2))
  then show ?thesis by (simp add: main_def resolveOwner_def)
qed

theorem first_unreferenced_fails_witness:
  "all_typeDefinition db_unowned = filter_td # []
   \<and> pass1 tw_example db_unowned = Inr ([], [])
   \<and> map_of [] (td_id filter_td) = None
   \<and> generate tw_example db_unowned = Inl TypeError
   \<and> main tw_example db_unowned = \<lparr>written = [], setFailed = Some TypeError\<rparr>"
proof -
  have 1: "all_typeDefinition db_unowned = filter_td # []"
    by (simp add: db_unowned_def)
  have 2: "pass1 tw_example db_unowned = Inr ([], [])"
    by (simp add: pass1_def db_unowned_def)
  have 3: "map_of ([] :: refList) (td_id filter_td) = None"
    by simp
  from first_unreferenced_fails [OF 1 2 3] 1 2
  show ?thesis by simp
qed

subsection \<open>Service resolution\<close>

text \<open>
  Claim C5. If the service lookup for the namespace of some resource, or for the
  namespace of the owner resolved for some nested type definition, does not match
  exactly one service, then \<^verbatim>\<open>generate\<close> fails with an error, and the entry point
  writes no document and reports the error.
\<close>

theorem service_resolution_fatal:
  assumes "(\<exists>r \<in> set (all_resource db).
              length (lookup_service db (serviceTypeOf (cloudFormationType r))) \<noteq> 1)
         \<or> (\<exists>pre D post rts refs rn pts owner.
              all_typeDefinition db = pre @ D # post
            \<and> pass1 tw db = Inr (rts, refs)
            \<and> forEach (typeStep tw db refs) pre (None, []) = Inr (rn, pts)
            \<and> resolveOwner refs D rn = Inr owner
            \<and> length (lookup_service db (join ''::'' (butlast (split ''::'' owner)))) \<noteq> 1)"
  shows "\<exists>err. generate tw db = Inl err \<and> main tw db = \<lparr>written = [], setFailed = Some err\<rparr>"
proof -
  have "\<exists>err. generate tw db = Inl err"
    using assms
  proof (elim disjE bexE exE conjE)
    fix r
    assume r: "r \<in> set (all_resource db)"
      and "length (lookup_service db (serviceTypeOf (cloudFormationType r))) \<noteq> 1"
    then have "\<And>t. \<exists>err. resourceStep tw db r t = Inl err"
      by (simp add: resourceStep_fails)
    from forEach_fails [where body = "resourceStep tw db" and x = r, OF r this]
    obtain err where "pass1 tw db = Inl err"
      unfolding pass1_def by blast
    then show ?thesis by (simp add: generate_def)
  next
    fix pre D post rts refs rn pts owner
    assume tds: "all_typeDefinition db = pre @ D # post"
      and p1: "pass1 tw db = Inr (rts, refs)"
      and pre: "forEach (typeStep tw db refs) pre (None, []) = Inr (rn, pts)"
      and own: "resolveOwner refs D rn = Inr owner"
      and len: "length (lookup_service db (join ''::'' (butlast (split ''::'' owner)))) \<noteq> 1"
    have "typeStep tw db refs D (rn, pts) = Inl NotExactlyOne"
      using own len by (rule typeStep_fails)
    then have "pass2 tw db refs = Inl NotExactlyOne"
      by (simp add: pass2_def tds forEach_append pre del: typeStep.simps)
    then show ?thesis by (simp add: generate_def p1)
  qed
  then show ?thesis by (auto simp: main_def)
qed

theorem service_resolution_fatal_witness:
  "length (lookup_service db_orphan (serviceTypeOf ''AWS::EC2::Instance'')) = 0
   \<and> generate tw_example db_orphan = Inl NotExactlyOne
   \<and> main tw_example db_orphan = \<lparr>written = [], setFailed = Some NotExactlyOne\<rparr>
   \<and> pass1 tw_example db_nested
       = Inr ([(''AWS::S3::Bucket::Policy'', JObject
                 [(''construct'', construct svc_s3 (hd (all_resource db_nested))),
                  (''attributes'', JObject []),
                  (''properties'', JObject
                     [(''Rule'', JObject
                        [(''name'', JString ''Rule''),
                         (''valueType'',
                            JObject [(''named'', JString ''AWS::S3::Bucket::Policy.Rule'')]),
                         (''required'', JUndefined)])])])],
              [(''7'', ''AWS::S3::Bucket::Policy.Rule'')])
   \<and> resolveOwner [(''7'', ''AWS::S3::Bucket::Policy.Rule'')] rule_td None
       = Inr ''AWS::S3::Bucket::Policy''
   \<and> length (lookup_service db_nested
         (join ''::'' (butlast (split ''::'' ''AWS::S3::Bucket::Policy'')))) = 0
   \<and> generate tw_example db_nested = Inl NotExactlyOne
   \<and> main tw_example db_nested = \<lparr>written = [], setFailed = Some NotExactlyOne\<rparr>"
proof -
  let ?refs = "[(''7'', ''AWS::S3::Bucket::Policy.Rule'')]"
  have o1: "hd (all_resource db_orphan) \<in> set (all_resource db_orphan)"
    by (simp add: db_orphan_def)
  have o2: "length (lookup_service db_orphan
      (serviceTypeOf (cloudFormationType (hd (all_resource db_orphan))))) \<noteq> 1"
    by (simp add: run_defs ex_defs)
  have o: "\<exists>err. generate tw_example db_orphan = Inl err
      \<and> main tw_example db_orphan = \<lparr>written = [], setFailed = Some err\<rparr>"
    by (rule service_resolution_fatal) (use o1 o2 in blast)
  have n1: "all_typeDefinition db_nested = [] @ rule_td # []"
    by (simp add: db_nested_def)
  have n2: "pass1 tw_example db_nested
       = Inr ([(''AWS::S3::Bucket::Policy'', JObject
                 [(''construct'', construct svc_s3 (hd (all_resource db_nested))),
                  (''attributes'', JObject []),
                  (''properties'', JObject
                     [(''Rule'', JObject
                        [(''name'', JString ''Rule''),
                         (''valueType'',
                            JObject [(''named'', JString ''AWS::S3::Bucket::Policy.Rule'')]),
                         (''required'', JUndefined)])])])], ?refs)"
    by (simp add: run_defs ex_defs)
  have n3: "forEach (typeStep tw_example db_nested ?refs) [] (None, []) = Inr (None, [])"
    by simp
  have n4: "resolveOwner ?refs rule_td None = Inr ''AWS::S3::Bucket::Policy''"
    by (simp add: run_defs ex_defs)
  have n5: "length (lookup_service db_nested
         (join ''::'' (butlast (split ''::'' ''AWS::S3::Bucket::Policy'')))) \<noteq> 1"
    by (simp add: run_defs ex_defs)
  have n: "\<exists>err. generate tw_example db_nested = Inl err
      \<and> main tw_example db_nested = \<lparr>written = [], setFailed = Some err\<rparr>"
    by (rule service_resolution_fatal) (use n1 n2 n3 n4 n5 in blast)
  have go: "generate tw_example db_orphan = Inl NotExactlyOne"
    by (simp add: run_defs ex_defs)
  have gn: "generate tw_example db_nested = Inl NotExactlyOne"
    by (simp add: run_defs ex_defs)
  from o n go gn n2 n4 show ?thesis
    by (simp add: run_defs ex_defs)
qed

subsection \<open>Construct naming\<close>

text \<open>
  Claim C8. The construct record of a resource has exactly the five entries
  \<^verbatim>\<open>typescript\<close>, \<^verbatim>\<open>csharp\<close>, \<^verbatim>\<open>golang\<close>, \<^verbatim>\<open>java\<close>, \<^verbatim>\<open>python\<close>, each with the name
  \<^verbatim>\<open>Cfn<res_name>\<close>. The substitutions replace the first occurrence only: with the
  first hyphen of the service name, the first \<^verbatim>\<open>aws\<close> of the hyphen-replaced name and
  the first \<^verbatim>\<open>::\<close> of the namespace located, what follows the occurrence is kept as
  it is. The record is the one emitted under the key \<^verbatim>\<open>construct\<close> of the resource.
\<close>

theorem construct_naming:
  "keys (construct svc r) = [''typescript'', ''csharp'', ''golang'', ''java'', ''python'']
   \<and> (\<forall>lang \<in> set (keys (construct svc r)).
         field (field (construct svc r) lang) ''name'' = JString (''Cfn'' @ res_name r))
   \<and> (\<forall>a b. svc_name svc = a @ ''-'' @ b \<and> firstOccurrence ''-'' a b \<longrightarrow>
         field (field (construct svc r) ''golang'') ''package'' = JString (a @ b)
       \<and> field (field (construct svc r) ''golang'') ''module''
           = JString (''github.com/aws/aws-cdk-go/awscdk/v2/'' @ a @ b)
       \<and> field (field (construct svc r) ''python'') ''module''
           = JString (''aws_cdk.'' @ a @ ''_'' @ b)
       \<and> field (field (construct svc r) ''java'') ''package''
           = JString (''software.amazon.awscdk.'' @ replace ''aws'' ''services'' (a @ ''.'' @ b)))
   \<and> (\<forall>a b. replace ''-'' ''.'' (svc_name svc) = a @ ''aws'' @ b \<and> firstOccurrence ''aws'' a b \<longrightarrow>
         field (field (construct svc r) ''java'') ''package''
           = JString (''software.amazon.awscdk.'' @ a @ ''services'' @ b))
   \<and> (\<forall>a b. cloudFormationNamespace svc = a @ ''::'' @ b \<and> firstOccurrence ''::'' a b \<longrightarrow>
         field (field (construct svc r) ''csharp'') ''namespace''
           = JString (''Amazon.CDK.'' @ a @ ''.'' @ b))
   \<and> (\<forall>tw db rts refs rts' refs'.
         resourceStep tw db r (rts, refs) = Inr (rts', refs') \<longrightarrow>
           (\<exists>s. only (lookup_service db (serviceTypeOf (cloudFormationType r))) = Inr s
              \<and> field (field (JObject rts') (cloudFormationType r)) ''construct''
                  = construct s r))"
proof -
  have k: "keys (construct svc r) = [''typescript'', ''csharp'', ''golang'', ''java'', ''python'']"
    by (simp add: construct_def keys_def members_def Let_def)
  have n: "\<forall>lang \<in> set (keys (construct svc r)).
         field (field (construct svc r) lang) ''name'' = JString (''Cfn'' @ res_name r)"
    unfolding k by (simp add: construct_def field_def members_def Let_def)
  have h: "field (field (construct svc r) ''golang'') ''package'' = JString (a @ b)
       \<and> field (field (construct svc r) ''golang'') ''module''
           = JString (''github.com/aws/aws-cdk-go/awscdk/v2/'' @ a @ b)
       \<and> field (field (construct svc r) ''python'') ''module''
           = JString (''aws_cdk.'' @ a @ ''_'' @ b)
       \<and> field (field (construct svc r) ''java'') ''package''
           = JString (''software.amazon.awscdk.'' @ replace ''aws'' ''services'' (a @ ''.'' @ b))"
    if "svc_name svc = a @ ''-'' @ b" and "firstOccurrence ''-'' a b" for a b
    using replace_firstOccurrence [OF that(2)] that(1)
    by (simp add: construct_def field_def members_def Let_def)
  have j: "field (field (construct svc r) ''java'') ''package''
           = JString (''software.amazon.awscdk.'' @ a @ ''services'' @ b)"
    if "replace ''-'' ''.'' (svc_name svc) = a @ ''aws'' @ b" and "firstOccurrence ''aws'' a b"
    for a b
    using replace_firstOccurrence [OF that(2)] that(1)
    by (simp add: construct_def field_def members_def Let_def)
  have c: "field (field (construct svc r) ''csharp'') ''namespace''
           = JString (''Amazon.CDK.'' @ a @ ''.'' @ b)"
    if "cloudFormationNamespace svc = a @ ''::'' @ b" and "firstOccurrence ''::'' a b" for a b
    using replace_firstOccurrence [OF that(2)] that(1)
    by (simp add: construct_def field_def members_def Let_def)
  show ?thesis
    using k n h j c resourceStep_construct by blast
qed

theorem construct_naming_witness:
  "svc_name \<lparr>svc_name = ''aws-foo-bar'', cloudFormationNamespace = ''AWS::Foo::Bar''\<rparr>
     = ''aws'' @ ''-'' @ ''foo-bar''
   \<and> firstOccurrence ''-'' ''aws'' ''foo-bar''
   \<and> field (field (construct
        \<lparr>svc_name = ''aws-foo-bar'', cloudFormationNamespace = ''AWS::Foo::Bar''\<rparr> bucket)
        ''golang'') ''package'' = JString ''awsfoo-bar''
   \<and> field (field (construct
        \<lparr>svc_name = ''aws-foo-bar'', cloudFormationNamespace = ''AWS::Foo::Bar''\<rparr> bucket)
        ''python'') ''module'' = JString ''aws_cdk.aws_foo-bar''
   \<and> field (field (construct
        \<lparr>svc_name = ''aws-foo-bar'', cloudFormationNamespace = ''AWS::Foo::Bar''\<rparr> bucket)
        ''java'') ''package'' = JString ''software.amazon.awscdk.services.foo-bar''
   \<and> firstOccurrence ''::'' ''AWS'' ''Foo::Bar''
   \<and> field (field (construct
        \<lparr>svc_name = ''aws-foo-bar'', cloudFormationNamespace = ''AWS::Foo::Bar''\<rparr> bucket)
        ''csharp'') ''namespace'' = JString ''Amazon.CDK.AWS.Foo::Bar''
   \<and> field (field (construct
        \<lparr>svc_name = ''aws-foo-bar'', cloudFormationNamespace = ''AWS::Foo::Bar''\<rparr> bucket)
        ''typescript'') ''name'' = JString ''CfnBucket''"
proof -
  let ?svc = "\<lparr>svc_name = ''aws-foo-bar'', cloudFormationNamespace = ''AWS::Foo::Bar''\<rparr>"
  have f1: "firstOccurrence ''-'' ''aws'' ''foo-bar''"
    by (simp add: firstOccurrence_def less_Suc_eq)
  have f2: "firstOccurrence ''::'' ''AWS'' ''Foo::Bar''"
    by (simp add: firstOccurrence_def less_Suc_eq)
  have f3: "firstOccurrence ''aws'' [] ''.foo-bar''"
    by (simp add: firstOccurrence_def)
  note T = construct_naming [of ?svc bucket]
  from T have "keys (construct ?svc bucket)
      = [''typescript'', ''csharp'', ''golang'', ''java'', ''python'']" by blast
  moreover from T have "\<forall>lang \<in> set (keys (construct ?svc bucket)).
         field (field (construct ?svc bucket) lang) ''name'' = JString (''Cfn'' @ res_name bucket)"
    by blast
  ultimately have nm: "field (field (construct ?svc bucket) ''typescript'') ''name''
      = JString ''CfnBucket''"
    by (simp add: bucket_def)
  from T have "svc_name ?svc = ''aws'' @ ''-'' @ ''foo-bar'' \<and> firstOccurrence ''-'' ''aws'' ''foo-bar'' \<longrightarrow>
         field (field (construct ?svc bucket) ''golang'') ''package'' = JString (''aws'' @ ''foo-bar'')
       \<and> field (field (construct ?svc bucket) ''golang'') ''module''
           = JString (''github.com/aws/aws-cdk-go/awscdk/v2/'' @ ''aws'' @ ''foo-bar'')
       \<and> field (field (construct ?svc bucket) ''python'') ''module''
           = JString (''aws_cdk.'' @ ''aws'' @ ''_'' @ ''foo-bar'')
       \<and> field (field (construct ?svc bucket) ''java'') ''package''
           = JString (''software.amazon.awscdk.'' @ replace ''aws'' ''services'' (''aws'' @ ''.'' @ ''foo-bar''))"
    by blast
  with f1 have hy: "field (field (construct ?svc bucket) ''golang'') ''package'' = JString ''awsfoo-bar''
       \<and> field (field (construct ?svc bucket) ''python'') ''module'' = JString ''aws_cdk.aws_foo-bar''
       \<and> field (field (construct ?svc bucket) ''java'') ''package''
           = JString ''software.amazon.awscdk.services.foo-bar''"
    by simp
  from T have "cloudFormationNamespace ?svc = ''AWS'' @ ''::'' @ ''Foo::Bar''
       \<and> firstOccurrence ''::'' ''AWS'' ''Foo::Bar'' \<longrightarrow>
         field (field (construct ?svc bucket) ''csharp'') ''namespace''
           = JString (''Amazon.CDK.'' @ ''AWS'' @ ''.'' @ ''Foo::Bar'')"
    by blast
  with f2 have cs: "field (field (construct ?svc bucket) ''csharp'') ''namespace''
      = JString ''Amazon.CDK.AWS.Foo::Bar''"
    by simp
  from nm hy cs f1 f2 show ?thesis by simp
qed

end
